theory Spec2Isabelle
  imports Main "HOL-Library.AList"
begin

section \<open>Data model of \<open>src/server/es/index.js\<close>\<close>

text \<open>
  The file defines one class, \<open>ES\<close>, a thin layer over an Elasticsearch client. Its
  methods are modelled as functions that take the instance state (\<open>es\<close>), the client
  (\<open>client\<close>, the replies of the remote engine) and the record of what has been sent
  and logged so far (\<open>world\<close>), and return the outcome with the updated state.

  A JavaScript object is an association list of its own properties in key order. A
  property read \<open>o[k]\<close> of a key that is not there gives \<open>undefined\<close>; a property
  write replaces the value of an existing key in place and appends a new key at the
  end, which is what \<open>AList.update\<close> does. Keys that look like array indices, which
  JavaScript enumerates first, are taken not to occur.
\<close>

type_synonym 'v obj = "(string \<times> 'v) list"

definition Object_keys :: "'v obj \<Rightarrow> string list" where
  "Object_keys ob = map fst ob"

text \<open>
  JSON-like values, as they occur in a query body, a filter or a sort spec. Numbers are
  carried as integers: the code does no arithmetic on them, it only passes them on.
\<close>

datatype jsval =
    JUndefined
  | JNull
  | JBool bool
  | JNum int
  | JStr string
  | JArr "jsval list"
  | JObj "(string \<times> jsval) list"

definition getprop :: "jsval obj \<Rightarrow> string \<Rightarrow> jsval" where
  "getprop ob k = (case map_of ob k of None \<Rightarrow> JUndefined | Some v \<Rightarrow> v)"

text \<open>Truthiness, for \<open>filter ? ... : ...\<close>.\<close>

fun truthy :: "jsval \<Rightarrow> bool" where
  "truthy JUndefined = False"
| "truthy JNull = False"
| "truthy (JBool b) = b"
| "truthy (JNum n) = (n \<noteq> 0)"
| "truthy (JStr s) = (s \<noteq> [])"
| "truthy (JArr _) = True"
| "truthy (JObj _) = True"

text \<open>
  Errors a method can end with: \<open>CodedError\<close> is the class of \<open>../utils/error\<close>
  (status code and message), \<open>TypeError\<close> is what JavaScript throws on a property
  read of \<open>undefined\<close> and on \<open>Object.keys(undefined)\<close>, and \<open>ClientError\<close> is a
  rejection of a client promise that nothing catches (with its message).
\<close>

datatype error = CodedError nat string | TypeError | ClientError string

text \<open>The settled state of a promise of the client; a rejection carries \<open>err.message\<close>.\<close>

datatype 'a promise = Resolved 'a | Rejected string

text \<open>
  The body of a search or scroll response: \<open>body._scroll_id\<close> (which may be missing)
  and the \<open>_source\<close> of each element of \<open>body.hits.hits\<close>, in the engine's order.
\<close>

record 'd body =
  scroll_id :: "string option"
  hits :: "'d list"

text \<open>
  The body of a mapping response: keyed by concrete index name, then
  \<open>.mappings[type].properties\<close>, an object from field name to the field's \<open>.type\<close>
  (\<open>None\<close> when the field description has no \<open>type\<close>).
\<close>

type_synonym fieldTypeMap = "(string option) obj"
type_synonym mapping_body = "((fieldTypeMap obj) obj)"

text \<open>The parameters of \<open>client.search\<close>; \<open>None\<close> is a parameter left out or undefined.\<close>

record search_params =
  sp_index :: "string option"
  sp_type :: "string option"
  sp_body :: "jsval obj"
  sp_scroll :: "string option"
  sp_size :: "nat option"
  sp_source :: "string list option"
  sp_sort :: jsval

datatype call =
    GetMapping string string
  | Search search_params
  | Scroll string string
  | ClearScroll "string option"

fun is_fetch :: "call \<Rightarrow> bool" where
  "is_fetch (Search _) = True"
| "is_fetch (Scroll _ _) = True"
| "is_fetch _ = False"

fun is_release :: "call \<Rightarrow> bool" where
  "is_release (ClearScroll _) = True"
| "is_release _ = False"

text \<open>
  The client, as a fixture: the reply to a mapping request for an index and type, the
  reply to the \<open>n\<close>-th page request (search or scroll) it receives, counted from 0,
  and the reply to a release of a cursor.
\<close>

record 'd client =
  getMapping :: "string \<Rightarrow> string \<Rightarrow> mapping_body promise"
  pages :: "nat \<Rightarrow> 'd body promise"
  release :: "string option \<Rightarrow> unit promise"

text \<open>
  What has left the process: the requests sent to the engine, oldest first, and the
  error-level log output (\<open>log.error\<close> and \<open>console.trace\<close>). The \<open>log.info\<close> and
  \<open>log.debug\<close> lines decide nothing and are left out.
\<close>

datatype log_line = LogError string | ConsoleTrace string

record world =
  calls :: "call list"
  console :: "log_line list"

definition send :: "call \<Rightarrow> world \<Rightarrow> world" where
  "send c w = w\<lparr>calls := calls w @ [c]\<rparr>"

definition logged :: "log_line list \<Rightarrow> world \<Rightarrow> world" where
  "logged ls w = w\<lparr>console := console w @ ls\<rparr>"

definition fetches :: "world \<Rightarrow> nat" where
  "fetches w = length (filter is_fetch (calls w))"

text \<open>
  The instance: \<open>this.config.indices\<close> and \<open>this.fieldTypes\<close>. The constructor does
  not set \<open>fieldTypes\<close>, so it is \<open>undefined\<close> (\<open>None\<close>) until \<open>initialize\<close> runs; a
  value of the cache is a field-type map or \<open>undefined\<close>.
\<close>

record index_cfg =
  cfg_index :: string
  cfg_type :: string

record es =
  indices :: "index_cfg list"
  fieldTypes :: "((fieldTypeMap option) obj) option"

section \<open>\<open>query\<close>\<close>

text \<open>
  The loop of lines 53 to 58: every key of the query body whose value is neither
  \<open>undefined\<close> nor \<open>null\<close> is copied into a fresh object.
\<close>

definition validatedQueryBody :: "jsval obj \<Rightarrow> jsval obj" where
  "validatedQueryBody queryBody =
     foldl (\<lambda>acc key.
              if getprop queryBody key \<noteq> JUndefined \<and> getprop queryBody key \<noteq> JNull
              then AList.update key (getprop queryBody key) acc
              else acc)
       [] (Object_keys queryBody)"

text \<open>
  \<open>query\<close> sends one search with the stripped body. Its result is the response body,
  or \<open>undefined\<close> (\<open>None\<close>) when the request fails: the rejection handler logs and
  returns nothing.
\<close>

definition query ::
  "'d client \<Rightarrow> string option \<Rightarrow> string option \<Rightarrow> jsval obj \<Rightarrow> world \<Rightarrow> 'd body option \<times> world"
where
  "query c esIndex esType queryBody w =
     (let w1 = send (Search \<lparr>sp_index = esIndex, sp_type = esType,
                              sp_body = validatedQueryBody queryBody, sp_scroll = None,
                              sp_size = None, sp_source = None, sp_sort = JUndefined\<rparr>) w
      in case pages c (fetches w) of
           Resolved b \<Rightarrow> (Some b, w1)
         | Rejected msg \<Rightarrow>
             (None, logged [LogError ''[ES.query] error when query'', ConsoleTrace msg] w1))"

section \<open>\<open>getESIndexByType\<close>\<close>

definition getESIndexByType :: "es \<Rightarrow> string \<Rightarrow> error + string" where
  "getESIndexByType s esType =
     (case find (\<lambda>i. cfg_type i = esType) (indices s) of
        Some i \<Rightarrow> Inr (cfg_index i)
      | None \<Rightarrow> Inl (CodedError 400 (''Invalid es type: '' @ [CHR 0x22] @ esType @ [CHR 0x22])))"

section \<open>The field-type cache: \<open>_getESFieldsTypes\<close>, \<open>initialize\<close>, \<open>getESFields\<close>\<close>

text \<open>
  The success handler of \<open>_getESFieldsTypes\<close> (lines 31 to 39): the first key of the
  response body, its \<open>.mappings[esType].properties\<close>, and from that the object that
  gives every field its \<open>.type\<close>. A read through \<open>undefined\<close> throws.
\<close>

definition fieldTypes_of :: "mapping_body \<Rightarrow> string \<Rightarrow> error + fieldTypeMap" where
  "fieldTypes_of respBody esType =
     (case Object_keys respBody of
        [] \<Rightarrow> Inl TypeError
      | esIndexAlias # _ \<Rightarrow>
          (case map_of respBody esIndexAlias of
             None \<Rightarrow> Inl TypeError
           | Some mappings \<Rightarrow>
               (case map_of mappings esType of
                  None \<Rightarrow> Inl TypeError
                | Some mappingObj \<Rightarrow>
                    Inr (foldl (\<lambda>acc field.
                                  AList.update field
                                    (case map_of mappingObj field of None \<Rightarrow> None | Some t \<Rightarrow> t) acc)
                           [] (Object_keys mappingObj)))))"

text \<open>
  \<open>_getESFieldsTypes\<close>: what its promise settles to, and what it writes to the
  console. A rejected request is traced and the promise resolves to \<open>undefined\<close>
  (\<open>Inr None\<close>); an exception of the success handler rejects it (\<open>Inl\<close>).
\<close>

definition getESFieldsTypes ::
  "'d client \<Rightarrow> string \<Rightarrow> string \<Rightarrow> (error + fieldTypeMap option) \<times> log_line list"
where
  "getESFieldsTypes c esIndex esType =
     (case getMapping c esIndex esType of
        Resolved respBody \<Rightarrow>
          (case fieldTypes_of respBody esType of
             Inl e \<Rightarrow> (Inl e, [])
           | Inr ft \<Rightarrow> (Inr (Some ft), []))
      | Rejected msg \<Rightarrow> (Inr None, [ConsoleTrace msg]))"

text \<open>
  \<open>initialize\<close> runs in two stretches, with its one \<open>await\<close> between them.
  \<open>initialize_begin\<close> is lines 145 to 149: the cache is replaced by an empty object
  and one mapping request per configured index is sent, in configuration order. The
  state it returns is the state any other code sees while the requests are in flight.
\<close>

definition initialize_begin :: "es \<Rightarrow> world \<Rightarrow> es \<times> world" where
  "initialize_begin s w =
     (s\<lparr>fieldTypes := Some []\<rparr>,
      foldl (\<lambda>w' cfg. send (GetMapping (cfg_index cfg) (cfg_type cfg)) w') w (indices s))"

text \<open>
  \<open>Promise.all\<close>: the list of results when every promise resolved, the rejection
  otherwise (every rejection here is a \<open>TypeError\<close>, so which one comes first does not
  show).
\<close>

fun promise_all :: "(error + 'a) list \<Rightarrow> error + 'a list" where
  "promise_all [] = Inr []"
| "promise_all (Inl e # ps) = Inl e"
| "promise_all (Inr x # ps) = (case promise_all ps of Inl e \<Rightarrow> Inl e | Inr xs \<Rightarrow> Inr (x # xs))"

text \<open>The \<open>forEach\<close> of lines 152 to 154, one property write per result.\<close>

fun install :: "(string \<times> fieldTypeMap option) list \<Rightarrow> es \<Rightarrow> error + es" where
  "install [] s = Inr s"
| "install ((i, ft) # rs) s =
     (case fieldTypes s of
        None \<Rightarrow> Inl TypeError
      | Some cache \<Rightarrow> install rs (s\<lparr>fieldTypes := Some (AList.update i ft cache)\<rparr>))"

text \<open>
  \<open>initialize_resume\<close> is line 150 on: the handlers have run (their console lines
  are taken in configuration order), and the results are written into the cache.
\<close>

definition initialize_resume ::
  "'d client \<Rightarrow> es \<Rightarrow> world \<Rightarrow> (error + (fieldTypeMap option) obj option) \<times> es \<times> world"
where
  "initialize_resume c s w =
     (let settled = map (\<lambda>cfg. getESFieldsTypes c (cfg_index cfg) (cfg_type cfg)) (indices s);
          w' = logged (concat (map snd settled)) w
      in case promise_all (map fst settled) of
           Inl e \<Rightarrow> (Inl e, s, w')
         | Inr fts \<Rightarrow>
             (case install (zip (map cfg_index (indices s)) fts) s of
                Inl e \<Rightarrow> (Inl e, s, w')
              | Inr s' \<Rightarrow> (Inr (fieldTypes s'), s', w')))"

definition initialize ::
  "'d client \<Rightarrow> es \<Rightarrow> world \<Rightarrow> (error + (fieldTypeMap option) obj option) \<times> es \<times> world"
where
  "initialize c s w = (case initialize_begin s w of (s1, w1) \<Rightarrow> initialize_resume c s1 w1)"

text \<open>
  \<open>getESFieldTypeMappingByIndex\<close>: \<open>this.fieldTypes[esIndex]\<close>, which is
  \<open>undefined\<close> (\<open>None\<close>) for a key that is absent and for a key bound to \<open>undefined\<close>.
\<close>

definition getESFieldTypeMappingByIndex :: "es \<Rightarrow> string \<Rightarrow> error + fieldTypeMap option" where
  "getESFieldTypeMappingByIndex s esIndex =
     (case fieldTypes s of
        None \<Rightarrow> Inl TypeError
      | Some cache \<Rightarrow> Inr (case map_of cache esIndex of None \<Rightarrow> None | Some v \<Rightarrow> v))"

text \<open>
  \<open>getESFields\<close>. The \<open>forEach\<close> of lines 175 to 181 visits every configured index,
  whatever \<open>esIndex\<close> is; \<open>Object.keys\<close> of \<open>undefined\<close> throws.
\<close>

record index_fields =
  if_index :: string
  if_type :: string
  if_fields :: "string list"

fun getESFields_res :: "es \<Rightarrow> index_cfg list \<Rightarrow> index_fields obj \<Rightarrow> error + index_fields obj" where
  "getESFields_res s [] res = Inr res"
| "getESFields_res s (cfg # cfgs) res =
     (case getESFieldTypeMappingByIndex s (cfg_index cfg) of
        Inl e \<Rightarrow> Inl e
      | Inr None \<Rightarrow> Inl TypeError
      | Inr (Some ft) \<Rightarrow>
          getESFields_res s cfgs
            (AList.update (cfg_index cfg)
               \<lparr>if_index = cfg_index cfg, if_type = cfg_type cfg, if_fields = Object_keys ft\<rparr> res))"

datatype fields_result = AllIndices "index_fields obj" | OneIndex "index_fields option"

definition getESFields :: "es \<Rightarrow> string option \<Rightarrow> error + fields_result" where
  "getESFields s esIndex =
     (case getESFields_res s (indices s) [] of
        Inl e \<Rightarrow> Inl e
      | Inr res \<Rightarrow>
          Inr (case esIndex of None \<Rightarrow> AllIndices res | Some i \<Rightarrow> OneIndex (map_of res i)))"

section \<open>\<open>scrollQuery\<close>\<close>

text \<open>
  \<open>.fields\<close> of what \<open>getESFields(esIndex)\<close> returned, as \<open>_.difference\<close> takes it.
  (The first case is not reached from \<open>scrollQuery\<close>, which has a non-empty
  \<open>esIndex\<close> there: the property read gives no array and lodash takes it as empty.)
\<close>

fun dot_fields :: "fields_result \<Rightarrow> error + string list" where
  "dot_fields (AllIndices res) = Inr []"
| "dot_fields (OneIndex None) = Inl TypeError"
| "dot_fields (OneIndex (Some r)) = Inr (if_fields r)"

text \<open>\<open>_.difference\<close>: the elements of the first array that the second lacks, in order.\<close>

definition difference :: "string list option \<Rightarrow> string list \<Rightarrow> string list" where
  "difference array vals =
     (case array of None \<Rightarrow> [] | Some xs \<Rightarrow> filter (\<lambda>x. x \<notin> set vals) xs)"

fun join :: "string \<Rightarrow> string list \<Rightarrow> string" where
  "join sep [] = []"
| "join sep [x] = x"
| "join sep (x # y # ys) = x @ sep @ join sep (y # ys)"

text \<open>The message of line 92: the offending names, quoted and separated by commas.\<close>

definition invalid_fields_message :: "string list \<Rightarrow> string" where
  "invalid_fields_message fieldsNotBelong =
     ''Invalid fields: '' @ [CHR 0x22]
       @ join ([CHR 0x22] @ '', '' @ [CHR 0x22]) fieldsNotBelong @ [CHR 0x22]"

text \<open>\<open>!x\<close> for an argument that is a string or \<open>undefined\<close>.\<close>

definition falsy :: "string option \<Rightarrow> bool" where
  "falsy x = (case x of None \<Rightarrow> True | Some v \<Rightarrow> v = [])"

text \<open>
  The loop of lines 103 to 134, on its four variables. The first request is a search;
  when it is rejected the handler logs and \<open>res\<close> is \<open>undefined\<close>, so \<open>res.body\<close>
  throws. A rejected scroll request has no handler and its rejection leaves the
  function. The loop runs as long as the engine returns pages that are not empty, so
  the function is partial: \<open>None\<close> is a run that never ends.
\<close>

partial_function (option) scroll_loop ::
  "'d client \<Rightarrow> search_params \<Rightarrow> 'd body option \<Rightarrow> string option \<Rightarrow> 'd list \<Rightarrow> nat \<Rightarrow> world
     \<Rightarrow> ((error + string option \<times> 'd list) \<times> world) option"
where
  "scroll_loop c req currentBatch scrollID totalData batchSize w =
     (if currentBatch = None \<or> batchSize > 0 then
        (case scrollID of
           None \<Rightarrow>
             (case pages c (fetches w) of
                Rejected msg \<Rightarrow>
                  Some (Inl TypeError,
                        logged [LogError ''[ES.query] error when query'', ConsoleTrace msg]
                          (send (Search req) w))
              | Resolved b \<Rightarrow>
                  scroll_loop c req (Some b) (scroll_id b) (totalData @ hits b)
                    (length (hits b)) (send (Search req) w))
         | Some sid \<Rightarrow>
             (case pages c (fetches w) of
                Rejected msg \<Rightarrow> Some (Inl (ClientError msg), send (Scroll sid ''1m'') w)
              | Resolved b \<Rightarrow>
                  scroll_loop c req (Some b) (scroll_id b) (totalData @ hits b)
                    (length (hits b)) (send (Scroll sid ''1m'') w)))
      else Some (Inr (scrollID, totalData), w))"

text \<open>
  The checks of lines 82 to 94, which come before any request: \<open>None\<close> when they
  pass, the error thrown otherwise (a \<open>TypeError\<close> of \<open>getESFields\<close> or of the read
  of \<open>.fields\<close> included).
\<close>

definition scrollQuery_checks ::
  "es \<Rightarrow> string option \<Rightarrow> string option \<Rightarrow> string list option \<Rightarrow> error option"
where
  "scrollQuery_checks s esIndex esType fields_arg =
     (if falsy esIndex \<or> falsy esType then
        Some (CodedError 400 ''Invalid es index or es type name'')
      else
        case getESFields s esIndex of
          Inl e \<Rightarrow> Some e
        | Inr r \<Rightarrow>
            (case dot_fields r of
               Inl e \<Rightarrow> Some e
             | Inr cached \<Rightarrow>
                 (let fieldsNotBelong = difference fields_arg cached in
                  if length fieldsNotBelong > 0 then
                    Some (CodedError 400 (invalid_fields_message fieldsNotBelong))
                  else None)))"

text \<open>
  \<open>scrollQuery\<close>. \<open>SCROLL_PAGE_SIZE\<close> comes from \<open>./const\<close> and is a parameter here.
  After the loop the cursor is released; a rejected release leaves the function too.
\<close>

definition scrollQuery ::
  "nat \<Rightarrow> es \<Rightarrow> 'd client \<Rightarrow> string option \<Rightarrow> string option \<Rightarrow> jsval \<Rightarrow> string list option
     \<Rightarrow> jsval \<Rightarrow> world \<Rightarrow> ((error + 'd list) \<times> world) option"
where
  "scrollQuery SCROLL_PAGE_SIZE s c esIndex esType filter_arg fields_arg sort_arg w =
     (case scrollQuery_checks s esIndex esType fields_arg of
        Some e \<Rightarrow> Some (Inl e, w)
      | None \<Rightarrow>
          (let validatedQueryBody = (if truthy filter_arg then [(''query'', filter_arg)] else [])
           in case scroll_loop c
                     \<lparr>sp_index = esIndex, sp_type = esType, sp_body = validatedQueryBody,
                      sp_scroll = Some ''1m'', sp_size = Some SCROLL_PAGE_SIZE,
                      sp_source = fields_arg, sp_sort = sort_arg\<rparr>
                     None None [] 0 w of
                None \<Rightarrow> None
              | Some (Inl e, w') \<Rightarrow> Some (Inl e, w')
              | Some (Inr (scrollID, totalData), w') \<Rightarrow>
                  (case release c scrollID of
                     Rejected msg \<Rightarrow> Some (Inl (ClientError msg), send (ClearScroll scrollID) w')
                   | Resolved _ \<Rightarrow> Some (Inr totalData, send (ClearScroll scrollID) w'))))"

text \<open>
  \<open>scrollQuery\<close> is declared \<open>async\<close>. A call of it never throws to its caller: it
  gives a promise, and \<open>scrollQuery\<close> above is what that promise settles to (\<open>Inl\<close> a
  rejection, \<open>Inr\<close> a fulfilment). An exception in the body, the checks included,
  rejects the promise.
\<close>

datatype 'p invocation = Throws error | GivesPromise 'p

definition scrollQuery_call ::
  "nat \<Rightarrow> es \<Rightarrow> 'd client \<Rightarrow> string option \<Rightarrow> string option \<Rightarrow> jsval \<Rightarrow> string list option
     \<Rightarrow> jsval \<Rightarrow> world \<Rightarrow> ((error + 'd list) \<times> world) option invocation"
where
  "scrollQuery_call SCROLL_PAGE_SIZE s c esIndex esType filter_arg fields_arg sort_arg w =
     GivesPromise (scrollQuery SCROLL_PAGE_SIZE s c esIndex esType filter_arg fields_arg sort_arg w)"

section \<open>Auxiliary notions and example fixtures\<close>

text \<open>A value that \<open>query\<close> strips: \<open>undefined\<close> or \<open>null\<close>.\<close>

definition nullish :: "jsval \<Rightarrow> bool" where
  "nullish v = (v = JUndefined \<or> v = JNull)"

definition kept :: "string \<times> jsval \<Rightarrow> bool" where
  "kept kv = (snd kv \<noteq> JUndefined \<and> snd kv \<noteq> JNull)"

text \<open>
  The request that the loop of \<open>scrollQuery\<close> sends next, given its cursor, and the
  requests it sends for a run of pages; a world with more requests sent.
\<close>

definition next_request :: "search_params \<Rightarrow> string option \<Rightarrow> call" where
  "next_request req scrollID = (case scrollID of None \<Rightarrow> Search req | Some sid \<Rightarrow> Scroll sid ''1m'')"

fun requests :: "search_params \<Rightarrow> string option \<Rightarrow> 'd body list \<Rightarrow> call list" where
  "requests req scrollID [] = []"
| "requests req scrollID (b # bs) = next_request req scrollID # requests req (scroll_id b) bs"

definition sends :: "call list \<Rightarrow> world \<Rightarrow> world" where
  "sends cs w = w\<lparr>calls := calls w @ cs\<rparr>"

text \<open>The search request of a \<open>scrollQuery\<close> call.\<close>

definition first_request ::
  "nat \<Rightarrow> string option \<Rightarrow> string option \<Rightarrow> jsval \<Rightarrow> string list option \<Rightarrow> jsval \<Rightarrow> search_params"
where
  "first_request SCROLL_PAGE_SIZE esIndex esType filter_arg fields_arg sort_arg =
     \<lparr>sp_index = esIndex, sp_type = esType,
      sp_body = (if truthy filter_arg then [(''query'', filter_arg)] else []),
      sp_scroll = Some ''1m'', sp_size = Some SCROLL_PAGE_SIZE,
      sp_source = fields_arg, sp_sort = sort_arg\<rparr>"

text \<open>An index for which a read of the cache gives no field-type map.\<close>

definition no_cached_map :: "es \<Rightarrow> string \<Rightarrow> bool" where
  "no_cached_map s esIndex =
     (case getESFieldTypeMappingByIndex s esIndex of Inr (Some ft) \<Rightarrow> False | _ \<Rightarrow> True)"

text \<open>What the promise of \<open>_getESFieldsTypes\<close> for a configured index resolves to.\<close>

definition settled_value :: "'d client \<Rightarrow> index_cfg \<Rightarrow> fieldTypeMap option" where
  "settled_value c cfg =
     (case fst (getESFieldsTypes c (cfg_index cfg) (cfg_type cfg)) of
        Inl e \<Rightarrow> None
      | Inr v \<Rightarrow> v)"

text \<open>The cache that a run of \<open>initialize\<close> builds from the settled promises.\<close>

definition built_cache :: "'d client \<Rightarrow> es \<Rightarrow> (fieldTypeMap option) obj" where
  "built_cache c s =
     foldl (\<lambda>acc cfg. AList.update (cfg_index cfg) (settled_value c cfg) acc) [] (indices s)"

text \<open>
  A client whose engine knows index \<open>A\<close> only and returns three pages of sizes 2, 2
  and 0; a client whose every request fails; a configuration of two indices; an empty
  record of requests and log lines; a query body with null and missing values.
\<close>

definition ex_client :: "nat client" where
  "ex_client =
     \<lparr>getMapping = (\<lambda>i t. if i = ''A''
                           then Resolved [(''A_1'', [(t, [(''f'', Some ''text''), (''g'', None)])])]
                           else Rejected ''down''),
      pages = (\<lambda>n. if n = 0 then Resolved \<lparr>scroll_id = Some ''c1'', hits = [1, 2]\<rparr>
                    else if n = 1 then Resolved \<lparr>scroll_id = Some ''c2'', hits = [3, 4]\<rparr>
                    else if n = 2 then Resolved \<lparr>scroll_id = Some ''c3'', hits = []\<rparr>
                    else Rejected ''boom''),
      release = (\<lambda>_. Resolved ())\<rparr>"

definition down_client :: "nat client" where
  "down_client =
     \<lparr>getMapping = (\<lambda>i t. Rejected ''down''), pages = (\<lambda>n. Rejected ''down''),
      release = (\<lambda>_. Rejected ''down'')\<rparr>"

definition ex_es :: es where
  "ex_es =
     \<lparr>indices = [\<lparr>cfg_index = ''A'', cfg_type = ''ta''\<rparr>, \<lparr>cfg_index = ''B'', cfg_type = ''tb''\<rparr>],
      fieldTypes = None\<rparr>"

definition w0 :: world where
  "w0 = \<lparr>calls = [], console = []\<rparr>"

definition ex_body :: "jsval obj" where
  "ex_body =
     [(''query'', JNull), (''aggs'', JObj [(''nested'', JNull), (''u'', JUndefined)]),
      (''from'', JUndefined), (''size'', JNum 10)]"

text \<open>
  Instances: one whose only index is loaded; one with two indices of which the second
  has no field-type map (what \<open>initialize\<close> leaves when the fetch for \<open>B\<close> fails);
  one whose only index holds an older map.
\<close>

definition ex_ready :: es where
  "ex_ready =
     \<lparr>indices = [\<lparr>cfg_index = ''A'', cfg_type = ''ta''\<rparr>],
      fieldTypes = Some [(''A'', Some [(''f'', Some ''text''), (''g'', None)])]\<rparr>"

definition ex_partial :: es where
  "ex_partial =
     \<lparr>indices = [\<lparr>cfg_index = ''A'', cfg_type = ''ta''\<rparr>, \<lparr>cfg_index = ''B'', cfg_type = ''tb''\<rparr>],
      fieldTypes = Some [(''A'', Some [(''f'', Some ''text''), (''g'', None)]), (''B'', None)]\<rparr>"

definition ex_old :: es where
  "ex_old =
     \<lparr>indices = [\<lparr>cfg_index = ''A'', cfg_type = ''ta''\<rparr>],
      fieldTypes = Some [(''A'', Some [(''old'', Some ''keyword'')])]\<rparr>"

text \<open>A client whose first page arrives and whose second page request fails.\<close>

definition flaky_client :: "nat client" where
  "flaky_client =
     \<lparr>getMapping = (\<lambda>i t. Rejected ''down''),
      pages = (\<lambda>n. if n = 0 then Resolved \<lparr>scroll_id = Some ''c1'', hits = [1, 2]\<rparr>
                    else Rejected ''boom''),
      release = (\<lambda>_. Resolved ())\<rparr>"

text \<open>A client that returns the three pages and then rejects the release of the cursor.\<close>

definition stuck_client :: "nat client" where
  "stuck_client =
     \<lparr>getMapping = (\<lambda>i t. Rejected ''down''),
      pages = (\<lambda>n. if n = 0 then Resolved \<lparr>scroll_id = Some ''c1'', hits = [1, 2]\<rparr>
                    else if n = 1 then Resolved \<lparr>scroll_id = Some ''c2'', hits = [3, 4]\<rparr>
                    else if n = 2 then Resolved \<lparr>scroll_id = Some ''c3'', hits = []\<rparr>
                    else Rejected ''boom''),
      release = (\<lambda>_. Rejected ''gone'')\<rparr>"

section \<open>Properties of \<open>query\<close>\<close>

lemma update_fresh: "k \<notin> fst ` set al \<Longrightarrow> AList.update k v al = al @ [(k, v)]"
  by (induction al) auto

lemma getprop_distinct:
  "distinct (map fst ob) \<Longrightarrow> (k, v) \<in> set ob \<Longrightarrow> getprop ob k = v"
  by (simp add: getprop_def)

text \<open>
  After the keys of a prefix of the body have been visited, the fresh object holds the
  kept pairs of that prefix, in order.
\<close>

lemma strip_prefix:
  assumes "distinct (map fst qb)"
  shows "qb = pre @ post \<Longrightarrow>
     foldl (\<lambda>acc key.
              if getprop qb key \<noteq> JUndefined \<and> getprop qb key \<noteq> JNull
              then AList.update key (getprop qb key) acc
              else acc) [] (map fst pre) = filter kept pre"
proof (induction pre arbitrary: post rule: rev_induct)
  case Nil
  then show ?case by simp
next
  case (snoc kv pre)
  obtain k v where kv: "kv = (k, v)" by (cases kv)
  from snoc.prems have qb: "qb = pre @ ((k, v) # post)" by (simp add: kv)
  have gp: "getprop qb k = v"
    using assms qb by (intro getprop_distinct) auto
  have fresh: "k \<notin> fst ` set (filter kept pre)"
    using assms qb by auto
  have IH: "foldl (\<lambda>acc key.
              if getprop qb key \<noteq> JUndefined \<and> getprop qb key \<noteq> JNull
              then AList.update key (getprop qb key) acc
              else acc) [] (map fst pre) = filter kept pre"
    using snoc.IH [OF qb] .
  have k: "kept (k, v) \<longleftrightarrow> v \<noteq> JUndefined \<and> v \<noteq> JNull"
    by (simp add: kept_def)
  show ?case
    by (simp add: kv IH gp k update_fresh [OF fresh])
qed

lemma validatedQueryBody_filter:
  "distinct (Object_keys qb) \<Longrightarrow> validatedQueryBody qb = filter kept qb"
  using strip_prefix [of qb qb "[]"] by (simp add: validatedQueryBody_def Object_keys_def)

lemma kept_nullish: "kept = (\<lambda>kv. \<not> nullish (snd kv))"
  by (auto simp: kept_def nullish_def fun_eq_iff)

lemma query_calls:
  "calls (snd (query c i t qb w)) =
     calls w @ [Search \<lparr>sp_index = i, sp_type = t, sp_body = validatedQueryBody qb,
                        sp_scroll = None, sp_size = None, sp_source = None,
                        sp_sort = JUndefined\<rparr>]"
  by (simp add: query_def send_def logged_def Let_def split: promise.splits)

text \<open>
  Claim C6. For every query body (an object, so its keys are distinct), the one request
  that \<open>query\<close> sends carries the body with exactly the pairs whose value is
  \<open>null\<close> or \<open>undefined\<close> removed and every other pair unchanged, in the same order.
  On a body with no such pair the stripping is the identity, and stripping twice is
  stripping once. (A key that is absent from the body is not among its keys and so is
  never sent.)
\<close>

theorem query_sends_stripped_body:
  assumes "distinct (Object_keys queryBody)"
  shows "calls (snd (query c esIndex esType queryBody w)) =
           calls w @ [Search \<lparr>sp_index = esIndex, sp_type = esType,
                              sp_body = filter (\<lambda>kv. \<not> nullish (snd kv)) queryBody,
                              sp_scroll = None, sp_size = None, sp_source = None,
                              sp_sort = JUndefined\<rparr>]
         \<and> ((\<forall>kv \<in> set queryBody. \<not> nullish (snd kv)) \<longrightarrow> validatedQueryBody queryBody = queryBody)
         \<and> validatedQueryBody (validatedQueryBody queryBody) = validatedQueryBody queryBody"
proof -
  have f: "validatedQueryBody queryBody = filter (\<lambda>kv. \<not> nullish (snd kv)) queryBody"
    using validatedQueryBody_filter [OF assms] by (simp add: kept_nullish)
  have d: "distinct (Object_keys (filter (\<lambda>kv. \<not> nullish (snd kv)) queryBody))"
    using assms by (simp add: Object_keys_def distinct_map_filter)
  have i: "validatedQueryBody (filter (\<lambda>kv. \<not> nullish (snd kv)) queryBody)
             = filter (\<lambda>kv. \<not> nullish (snd kv)) queryBody"
    using validatedQueryBody_filter [OF d] by (simp add: kept_nullish)
  show ?thesis
    by (simp add: query_calls f i)
qed

theorem query_sends_stripped_body_witness:
  "distinct (Object_keys ex_body)
   \<and> calls (snd (query ex_client (Some ''A'') (Some ''ta'') ex_body w0)) =
       [Search \<lparr>sp_index = Some ''A'', sp_type = Some ''ta'',
                 sp_body = [(''aggs'', JObj [(''nested'', JNull), (''u'', JUndefined)]),
                            (''size'', JNum 10)],
                 sp_scroll = None, sp_size = None, sp_source = None, sp_sort = JUndefined\<rparr>]"
  using query_sends_stripped_body [of ex_body ex_client "Some ''A''" "Some ''ta''" w0]
  by (simp add: ex_body_def Object_keys_def nullish_def w0_def)

text \<open>
  Claim C10. The stripping is shallow: a top-level value of the body that is an object
  is sent as it is, whatever its own fields hold, \<open>null\<close> and \<open>undefined\<close> included.
\<close>

theorem query_stripping_is_shallow:
  assumes "distinct (Object_keys queryBody)" and "(key, JObj inner) \<in> set queryBody"
  shows "\<exists>req. calls (snd (query c esIndex esType queryBody w)) = calls w @ [Search req]
           \<and> getprop (sp_body req) key = JObj inner"
proof -
  have d: "distinct (map fst (filter kept queryBody))"
    using assms(1) by (simp add: Object_keys_def distinct_map_filter)
  have m: "(key, JObj inner) \<in> set (filter kept queryBody)"
    using assms(2) by (simp add: kept_def)
  have "getprop (validatedQueryBody queryBody) key = JObj inner"
    using getprop_distinct [OF d m] by (simp add: validatedQueryBody_filter [OF assms(1)])
  then show ?thesis
    by (simp add: query_calls)
qed

theorem query_stripping_is_shallow_witness:
  "distinct (Object_keys ex_body)
   \<and> (''aggs'', JObj [(''nested'', JNull), (''u'', JUndefined)]) \<in> set ex_body
   \<and> (\<exists>req. calls (snd (query ex_client None None ex_body w0)) = calls w0 @ [Search req]
           \<and> getprop (sp_body req) ''aggs'' = JObj [(''nested'', JNull), (''u'', JUndefined)])"
  using query_stripping_is_shallow
          [of ex_body "''aggs''" "[(''nested'', JNull), (''u'', JUndefined)]" ex_client None None w0]
  by (simp add: ex_body_def Object_keys_def)

text \<open>
  Claim C8. When the request that \<open>query\<close> sends is rejected, the call resolves to
  \<open>undefined\<close> (the result type of \<open>query\<close> has no error case: nothing is thrown),
  and the error is logged: an error line and a trace of the error's message.
\<close>

theorem query_failure_is_logged_not_thrown:
  assumes "pages c (fetches w) = Rejected msg"
  shows "fst (query c esIndex esType queryBody w) = None
         \<and> console (snd (query c esIndex esType queryBody w)) =
             console w @ [LogError ''[ES.query] error when query'', ConsoleTrace msg]"
  using assms by (simp add: query_def Let_def logged_def send_def)

theorem query_failure_is_logged_not_thrown_witness:
  "pages down_client (fetches w0) = Rejected ''down''
   \<and> fst (query down_client (Some ''A'') (Some ''ta'') ex_body w0) = (None :: nat body option)
   \<and> console (snd (query down_client (Some ''A'') (Some ''ta'') ex_body w0)) =
        [LogError ''[ES.query] error when query'', ConsoleTrace ''down'']"
  using query_failure_is_logged_not_thrown
          [of down_client w0 "''down''" "Some ''A''" "Some ''ta''" ex_body]
  by (simp add: down_client_def w0_def)

section \<open>Properties of \<open>getESIndexByType\<close>\<close>

lemma find_first:
  "(\<forall>j \<in> set pre. \<not> P j) \<Longrightarrow> P i \<Longrightarrow> find P (pre @ i # post) = Some i"
  by (induction pre) auto

text \<open>
  Claim C7. For every document type: when no configured pair has that type,
  \<open>getESIndexByType\<close> fails with the error of code 400; when one has, it returns the
  index name of a configured pair with that type, namely of the first one. The function
  takes the instance only: it has no client to send a request to.
\<close>

theorem getESIndexByType_spec:
  "((\<forall>i \<in> set (indices s). cfg_type i \<noteq> esType) \<longrightarrow>
      getESIndexByType s esType =
        Inl (CodedError 400 (''Invalid es type: '' @ [CHR 0x22] @ esType @ [CHR 0x22])))
   \<and> ((\<exists>i \<in> set (indices s). cfg_type i = esType) \<longrightarrow>
        (\<exists>i \<in> set (indices s). cfg_type i = esType \<and> getESIndexByType s esType = Inr (cfg_index i)))
   \<and> (\<forall>pre i post. indices s = pre @ i # post \<and> cfg_type i = esType
          \<and> (\<forall>j \<in> set pre. cfg_type j \<noteq> esType) \<longrightarrow>
        getESIndexByType s esType = Inr (cfg_index i))"
proof (intro conjI impI allI)
  assume "\<forall>i \<in> set (indices s). cfg_type i \<noteq> esType"
  then have "find (\<lambda>i. cfg_type i = esType) (indices s) = None"
    by (simp add: find_None_iff)
  then show "getESIndexByType s esType =
        Inl (CodedError 400 (''Invalid es type: '' @ [CHR 0x22] @ esType @ [CHR 0x22]))"
    by (simp add: getESIndexByType_def)
next
  assume "\<exists>i \<in> set (indices s). cfg_type i = esType"
  then obtain i where "find (\<lambda>i. cfg_type i = esType) (indices s) = Some i"
    by (cases "find (\<lambda>i. cfg_type i = esType) (indices s)") (auto simp: find_None_iff)
  moreover from this have "i \<in> set (indices s)" "cfg_type i = esType"
    by (auto simp: find_Some_iff)
  ultimately show "\<exists>i \<in> set (indices s). cfg_type i = esType \<and> getESIndexByType s esType = Inr (cfg_index i)"
    by (auto simp: getESIndexByType_def)
next
  fix pre i post
  assume a: "indices s = pre @ i # post \<and> cfg_type i = esType \<and> (\<forall>j \<in> set pre. cfg_type j \<noteq> esType)"
  then have "find (\<lambda>i. cfg_type i = esType) (indices s) = Some i"
    by (simp add: find_first)
  then show "getESIndexByType s esType = Inr (cfg_index i)"
    by (simp add: getESIndexByType_def)
qed

theorem getESIndexByType_spec_witness:
  "getESIndexByType ex_es ''tb'' = Inr ''B''
   \<and> getESIndexByType ex_es ''tc'' =
       Inl (CodedError 400 (''Invalid es type: '' @ [CHR 0x22] @ ''tc'' @ [CHR 0x22]))"
  using getESIndexByType_spec [of ex_es "''tb''"] getESIndexByType_spec [of ex_es "''tc''"]
  by (simp add: ex_es_def)

section \<open>Properties of the field-type cache\<close>

lemma getESFields_res_missing:
  "cfg \<in> set cfgs \<Longrightarrow> no_cached_map s (cfg_index cfg) \<Longrightarrow> getESFields_res s cfgs res = Inl TypeError"
proof (induction cfgs arbitrary: res)
  case Nil
  then show ?case by simp
next
  case (Cons a cfgs)
  show ?case
  proof (cases "getESFieldTypeMappingByIndex s (cfg_index a)")
    case (Inl e)
    then have "e = TypeError"
      by (auto simp: getESFieldTypeMappingByIndex_def split: option.splits)
    with Inl show ?thesis by simp
  next
    case (Inr v)
    show ?thesis
    proof (cases v)
      case None
      with Inr show ?thesis by simp
    next
      case (Some ft)
      with Inr Cons.prems have "cfg \<in> set cfgs"
        by (auto simp: no_cached_map_def)
      with Cons.IH Cons.prems(2) Inr Some show ?thesis by simp
    qed
  qed
qed

text \<open>
  Claim C9. If one configured index has no cached field-type map (its key is bound to
  \<open>undefined\<close>, as after a failed fetch, or is missing, or \<open>initialize\<close> has not
  run), then every call of \<open>getESFields\<close> throws: with no argument and with any index
  as argument, a loaded one included. So \<open>scrollQuery\<close>, once its index and type are
  not empty, fails in its field check for any index, with that \<open>TypeError\<close> and with
  no request sent.
\<close>

theorem missing_map_breaks_getESFields:
  assumes "cfg \<in> set (indices s)" and "no_cached_map s (cfg_index cfg)"
  shows "getESFields s esIndex = Inl TypeError
         \<and> (\<not> falsy esIndex' \<and> \<not> falsy esType \<longrightarrow>
              scrollQuery SCROLL_PAGE_SIZE s c esIndex' esType filter_arg fields_arg sort_arg w
                = Some (Inl TypeError, w))"
proof -
  have g: "\<And>i. getESFields s i = Inl TypeError"
    using getESFields_res_missing [OF assms] by (simp add: getESFields_def)
  show ?thesis
    by (simp add: g scrollQuery_def scrollQuery_checks_def)
qed

theorem missing_map_breaks_getESFields_witness:
  "\<lparr>cfg_index = ''B'', cfg_type = ''tb''\<rparr> \<in> set (indices ex_partial)
   \<and> no_cached_map ex_partial ''B''
   \<and> getESFields ex_partial None = Inl TypeError
   \<and> getESFields ex_partial (Some ''A'') = Inl TypeError
   \<and> scrollQuery 100 ex_partial ex_client (Some ''A'') (Some ''ta'') JUndefined (Some [''f'']) JUndefined w0
       = Some (Inl TypeError, w0)"
  using missing_map_breaks_getESFields [of "\<lparr>cfg_index = ''B'', cfg_type = ''tb''\<rparr>" ex_partial None "Some ''A''" "Some ''ta''" 100 ex_client JUndefined "Some [''f'']" JUndefined w0]
    missing_map_breaks_getESFields [of "\<lparr>cfg_index = ''B'', cfg_type = ''tb''\<rparr>" ex_partial "Some ''A''" "Some ''A''" "Some ''ta''" 100 ex_client JUndefined "Some [''f'']" JUndefined w0]
  by (simp add: ex_partial_def no_cached_map_def getESFieldTypeMappingByIndex_def falsy_def)

lemma join_names: "x \<in> set xs \<Longrightarrow> \<exists>pre post. join sep xs = pre @ x @ post"
proof (induction sep xs rule: join.induct)
  case (1 sep)
  then show ?case by simp
next
  case (2 sep y)
  then have "join sep [y] = [] @ x @ []" by simp
  then show ?case by blast
next
  case (3 sep y z zs)
  show ?case
  proof (cases "x = y")
    case True
    then have "join sep (y # z # zs) = [] @ x @ (sep @ join sep (z # zs))" by simp
    then show ?thesis by blast
  next
    case False
    with 3 obtain pre post where "join sep (z # zs) = pre @ x @ post" by auto
    then have "join sep (y # z # zs) = (y @ sep @ pre) @ x @ post" by simp
    then show ?thesis by blast
  qed
qed

text \<open>\<open>getESFields\<close> when every configured index has a map.\<close>

lemma getESFields_res_loaded:
  assumes "\<forall>cfg \<in> set cfgs. \<not> no_cached_map s (cfg_index cfg)"
    and "\<forall>i r. map_of res i = Some r \<longrightarrow>
           (\<exists>ft. getESFieldTypeMappingByIndex s i = Inr (Some ft) \<and> if_fields r = Object_keys ft)"
  shows "\<exists>res'. getESFields_res s cfgs res = Inr res'
           \<and> dom (map_of res') = dom (map_of res) \<union> cfg_index ` set cfgs
           \<and> (\<forall>i r. map_of res' i = Some r \<longrightarrow>
                 (\<exists>ft. getESFieldTypeMappingByIndex s i = Inr (Some ft) \<and> if_fields r = Object_keys ft))"
  using assms
proof (induction cfgs arbitrary: res)
  case Nil
  then show ?case by simp
next
  case (Cons cfg cfgs)
  from Cons.prems(1) obtain ft where ft: "getESFieldTypeMappingByIndex s (cfg_index cfg) = Inr (Some ft)"
    by (auto simp: no_cached_map_def split: sum.splits option.splits)
  let ?r = "\<lparr>if_index = cfg_index cfg, if_type = cfg_type cfg, if_fields = Object_keys ft\<rparr>"
  let ?res = "AList.update (cfg_index cfg) ?r res"
  have inv: "\<forall>i r. map_of ?res i = Some r \<longrightarrow>
           (\<exists>ft. getESFieldTypeMappingByIndex s i = Inr (Some ft) \<and> if_fields r = Object_keys ft)"
    using Cons.prems(2) ft by (auto simp: update_conv')
  have rest: "\<forall>cfg \<in> set cfgs. \<not> no_cached_map s (cfg_index cfg)"
    using Cons.prems(1) by simp
  from Cons.IH [OF rest inv] obtain res' where
    r: "getESFields_res s cfgs ?res = Inr res'"
       "dom (map_of res') = dom (map_of ?res) \<union> cfg_index ` set cfgs"
       "\<forall>i r. map_of res' i = Some r \<longrightarrow>
                 (\<exists>ft. getESFieldTypeMappingByIndex s i = Inr (Some ft) \<and> if_fields r = Object_keys ft)"
    by blast
  have "dom (map_of res') = dom (map_of res) \<union> cfg_index ` set (cfg # cfgs)"
    using r(2) by (auto simp: update_conv')
  with r(1,3) ft show ?case by simp
qed

lemma getESFields_loaded:
  assumes "\<forall>cfg \<in> set (indices s). \<not> no_cached_map s (cfg_index cfg)"
  shows "(i \<notin> cfg_index ` set (indices s) \<longrightarrow> getESFields s (Some i) = Inr (OneIndex None))
       \<and> (i \<in> cfg_index ` set (indices s) \<longrightarrow> getESFieldTypeMappingByIndex s i = Inr (Some ft) \<longrightarrow>
            (\<exists>r. getESFields s (Some i) = Inr (OneIndex (Some r)) \<and> if_fields r = Object_keys ft))"
proof -
  have "\<forall>i r. map_of ([]::index_fields obj) i = Some r \<longrightarrow>
           (\<exists>ft. getESFieldTypeMappingByIndex s i = Inr (Some ft) \<and> if_fields r = Object_keys ft)"
    by simp
  from getESFields_res_loaded [OF assms this] obtain res' where
    r: "getESFields_res s (indices s) [] = Inr res'"
       "dom (map_of res') = cfg_index ` set (indices s)"
       "\<forall>i r. map_of res' i = Some r \<longrightarrow>
                 (\<exists>ft. getESFieldTypeMappingByIndex s i = Inr (Some ft) \<and> if_fields r = Object_keys ft)"
    by auto
  show ?thesis
  proof (intro conjI impI)
    assume "i \<notin> cfg_index ` set (indices s)"
    with r(2) have "map_of res' i = None" by (metis domIff)
    with r(1) show "getESFields s (Some i) = Inr (OneIndex None)"
      by (simp add: getESFields_def)
  next
    assume "i \<in> cfg_index ` set (indices s)" and ft: "getESFieldTypeMappingByIndex s i = Inr (Some ft)"
    with r(2) obtain rr where rr: "map_of res' i = Some rr" by (metis domD)
    with r(3) ft have "if_fields rr = Object_keys ft" by fastforce
    with r(1) rr show "\<exists>r. getESFields s (Some i) = Inr (OneIndex (Some r)) \<and> if_fields r = Object_keys ft"
      by (simp add: getESFields_def)
  qed
qed

text \<open>
  Claim C5, as amended. A \<open>scrollQuery\<close> call with an empty or missing index or
  document type fails with the error of code 400. With index and type not empty, the
  field check first reads the maps of all configured indices: when one of them has no
  cached map the call fails with a \<open>TypeError\<close>, whatever the requested fields are;
  when all have one and the target index is configured, a requested field that is not
  among the keys of the target's cached map makes the call fail with the error of code
  400, whose message is built from the offending names: each of them occurs in it. In
  all three cases the failure is not thrown to the caller: the call gives a promise,
  which is rejected, by code that runs before anything is awaited, and the world is as
  it was: no request has been sent.
\<close>

theorem scrollQuery_rejects_bad_request:
  "(falsy esIndex \<or> falsy esType \<longrightarrow>
      scrollQuery_call SCROLL_PAGE_SIZE s c esIndex esType filter_arg fields_arg sort_arg w
        = GivesPromise (Some (Inl (CodedError 400 ''Invalid es index or es type name''), w)))
   \<and> (\<not> falsy esIndex \<and> \<not> falsy esType
        \<and> (\<exists>cfg \<in> set (indices s). no_cached_map s (cfg_index cfg)) \<longrightarrow>
      scrollQuery_call SCROLL_PAGE_SIZE s c esIndex esType filter_arg fields_arg sort_arg w
        = GivesPromise (Some (Inl TypeError, w)))
   \<and> (\<not> falsy esIndex \<and> \<not> falsy esType
        \<and> (\<forall>cfg \<in> set (indices s). \<not> no_cached_map s (cfg_index cfg))
        \<and> esIndex = Some i \<and> i \<in> cfg_index ` set (indices s)
        \<and> getESFieldTypeMappingByIndex s i = Inr (Some ft)
        \<and> fields_arg = Some fs \<and> f \<in> set fs \<and> f \<notin> set (Object_keys ft) \<longrightarrow>
      scrollQuery_call SCROLL_PAGE_SIZE s c esIndex esType filter_arg fields_arg sort_arg w
        = GivesPromise (Some (Inl (CodedError 400
              (invalid_fields_message (filter (\<lambda>x. x \<notin> set (Object_keys ft)) fs))), w))
      \<and> (\<exists>pre post. invalid_fields_message (filter (\<lambda>x. x \<notin> set (Object_keys ft)) fs) = pre @ f @ post))"
proof (intro conjI impI)
  assume "falsy esIndex \<or> falsy esType"
  then show "scrollQuery_call SCROLL_PAGE_SIZE s c esIndex esType filter_arg fields_arg sort_arg w
        = GivesPromise (Some (Inl (CodedError 400 ''Invalid es index or es type name''), w))"
    by (simp add: scrollQuery_call_def scrollQuery_def scrollQuery_checks_def)
next
  assume a: "\<not> falsy esIndex \<and> \<not> falsy esType
        \<and> (\<exists>cfg \<in> set (indices s). no_cached_map s (cfg_index cfg))"
  then obtain cfg where "cfg \<in> set (indices s)" "no_cached_map s (cfg_index cfg)" by blast
  from getESFields_res_missing [OF this] have "getESFields s esIndex = Inl TypeError"
    by (simp add: getESFields_def)
  with a show "scrollQuery_call SCROLL_PAGE_SIZE s c esIndex esType filter_arg fields_arg sort_arg w
        = GivesPromise (Some (Inl TypeError, w))"
    by (simp add: scrollQuery_call_def scrollQuery_def scrollQuery_checks_def)
next
  assume a: "\<not> falsy esIndex \<and> \<not> falsy esType
        \<and> (\<forall>cfg \<in> set (indices s). \<not> no_cached_map s (cfg_index cfg))
        \<and> esIndex = Some i \<and> i \<in> cfg_index ` set (indices s)
        \<and> getESFieldTypeMappingByIndex s i = Inr (Some ft)
        \<and> fields_arg = Some fs \<and> f \<in> set fs \<and> f \<notin> set (Object_keys ft)"
  then have all: "\<forall>cfg \<in> set (indices s). \<not> no_cached_map s (cfg_index cfg)" by blast
  from getESFields_loaded [OF all, of i ft] a
  obtain r where r: "getESFields s (Some i) = Inr (OneIndex (Some r))" "if_fields r = Object_keys ft"
    by blast
  from a have ne: "filter (\<lambda>x. x \<notin> set (Object_keys ft)) fs \<noteq> []"
    by (auto simp: filter_empty_conv)
  from a have nf: "\<not> falsy (Some i)" "\<not> falsy esType" and eq: "esIndex = Some i" "fields_arg = Some fs"
    by auto
  show "scrollQuery_call SCROLL_PAGE_SIZE s c esIndex esType filter_arg fields_arg sort_arg w
        = GivesPromise (Some (Inl (CodedError 400
              (invalid_fields_message (filter (\<lambda>x. x \<notin> set (Object_keys ft)) fs))), w))"
    by (simp add: scrollQuery_call_def scrollQuery_def scrollQuery_checks_def difference_def
          eq nf r ne)
next
  assume a: "\<not> falsy esIndex \<and> \<not> falsy esType
        \<and> (\<forall>cfg \<in> set (indices s). \<not> no_cached_map s (cfg_index cfg))
        \<and> esIndex = Some i \<and> i \<in> cfg_index ` set (indices s)
        \<and> getESFieldTypeMappingByIndex s i = Inr (Some ft)
        \<and> fields_arg = Some fs \<and> f \<in> set fs \<and> f \<notin> set (Object_keys ft)"
  then have "f \<in> set (filter (\<lambda>x. x \<notin> set (Object_keys ft)) fs)" by simp
  from join_names [OF this]
  obtain pre post where "join ([CHR 0x22] @ '', '' @ [CHR 0x22]) (filter (\<lambda>x. x \<notin> set (Object_keys ft)) fs) = pre @ f @ post"
    by blast
  then have "invalid_fields_message (filter (\<lambda>x. x \<notin> set (Object_keys ft)) fs)
          = (''Invalid fields: '' @ [CHR 0x22] @ pre) @ f @ (post @ [CHR 0x22])"
    by (simp add: invalid_fields_message_def)
  then show "\<exists>pre post. invalid_fields_message (filter (\<lambda>x. x \<notin> set (Object_keys ft)) fs) = pre @ f @ post"
    by blast
qed

theorem scrollQuery_rejects_bad_request_witness:
  "scrollQuery_call 100 ex_ready ex_client (Some '''') (Some ''ta'') JUndefined (Some [''f'']) JUndefined w0
     = GivesPromise (Some (Inl (CodedError 400 ''Invalid es index or es type name''), w0))
   \<and> no_cached_map ex_partial ''B''
   \<and> scrollQuery_call 100 ex_partial ex_client (Some ''A'') (Some ''ta'') JUndefined (Some [''f'', ''x'']) JUndefined w0
     = GivesPromise (Some (Inl TypeError, w0))
   \<and> getESFieldTypeMappingByIndex ex_ready ''A'' = Inr (Some [(''f'', Some ''text''), (''g'', None)])
   \<and> scrollQuery_call 100 ex_ready ex_client (Some ''A'') (Some ''ta'') JUndefined (Some [''f'', ''x'', ''y'']) JUndefined w0
     = GivesPromise (Some (Inl (CodedError 400 (''Invalid fields: '' @ [CHR 0x22] @ ''x'' @ [CHR 0x22] @ '', ''
                                   @ [CHR 0x22] @ ''y'' @ [CHR 0x22])), w0))"
proof -
  have m: "getESFieldTypeMappingByIndex ex_ready ''A'' = Inr (Some [(''f'', Some ''text''), (''g'', None)])"
    by (simp add: getESFieldTypeMappingByIndex_def ex_ready_def)
  have n: "no_cached_map ex_partial ''B''"
    by (simp add: no_cached_map_def getESFieldTypeMappingByIndex_def ex_partial_def)
  have l: "\<forall>cfg \<in> set (indices ex_ready). \<not> no_cached_map ex_ready (cfg_index cfg)"
    by (simp add: no_cached_map_def getESFieldTypeMappingByIndex_def ex_ready_def)
  have i: "''A'' \<in> cfg_index ` set (indices ex_ready)"
    by (simp add: ex_ready_def)
  have p: "\<exists>cfg \<in> set (indices ex_partial). no_cached_map ex_partial (cfg_index cfg)"
    using n by (simp add: ex_partial_def)
  note t = scrollQuery_call_def
  have 1: "scrollQuery_call 100 ex_ready ex_client (Some '''') (Some ''ta'') JUndefined (Some [''f'']) JUndefined w0
     = GivesPromise (Some (Inl (CodedError 400 ''Invalid es index or es type name''), w0))"
    using scrollQuery_rejects_bad_request [where esIndex = "Some ''''" and esType = "Some ''ta''" and s = ex_ready
        and c = ex_client and SCROLL_PAGE_SIZE = 100 and filter_arg = JUndefined
        and fields_arg = "Some [''f'']" and sort_arg = JUndefined and w = w0]
    by (simp add: falsy_def)
  have 2: "scrollQuery_call 100 ex_partial ex_client (Some ''A'') (Some ''ta'') JUndefined (Some [''f'', ''x'']) JUndefined w0
     = GivesPromise (Some (Inl TypeError, w0))"
    using scrollQuery_rejects_bad_request [where esIndex = "Some ''A''" and esType = "Some ''ta''" and s = ex_partial
        and c = ex_client and SCROLL_PAGE_SIZE = 100 and filter_arg = JUndefined
        and fields_arg = "Some [''f'', ''x'']" and sort_arg = JUndefined and w = w0] p
    by (simp add: falsy_def)
  have 3: "scrollQuery_call 100 ex_ready ex_client (Some ''A'') (Some ''ta'') JUndefined (Some [''f'', ''x'', ''y'']) JUndefined w0
     = GivesPromise (Some (Inl (CodedError 400 (''Invalid fields: '' @ [CHR 0x22] @ ''x'' @ [CHR 0x22] @ '', ''
                                   @ [CHR 0x22] @ ''y'' @ [CHR 0x22])), w0))"
    using scrollQuery_rejects_bad_request [where esIndex = "Some ''A''" and esType = "Some ''ta''" and s = ex_ready
        and c = ex_client and SCROLL_PAGE_SIZE = 100 and filter_arg = JUndefined
        and fields_arg = "Some [''f'', ''x'', ''y'']" and sort_arg = JUndefined and w = w0
        and i = "''A''" and ft = "[(''f'', Some ''text''), (''g'', None)]"
        and fs = "[''f'', ''x'', ''y'']" and f = "''x''"] m l i
    by (simp add: falsy_def Object_keys_def invalid_fields_message_def)
  from 1 2 3 m n show ?thesis by simp
qed

text \<open>
  The claim as stated fails twice. After an \<open>initialize\<close> in which the fetch for
  \<open>B\<close> failed, a request on \<open>A\<close> for a field that is not in the cached list of
  \<open>A\<close> fails with a \<open>TypeError\<close>, not with the error of code 400. And where the
  error of code 400 does arise, it is the rejection of the promise the call gives, not
  an exception thrown by the call.
\<close>

theorem scrollQuery_field_check_counterexample:
  "fst (snd (initialize ex_client ex_es w0)) = ex_partial
   \<and> getESFieldTypeMappingByIndex ex_partial ''A'' = Inr (Some [(''f'', Some ''text''), (''g'', None)])
   \<and> ''x'' \<notin> set (Object_keys [(''f'', Some ''text''), (''g'', None :: string option)])
   \<and> scrollQuery 100 ex_partial ex_client (Some ''A'') (Some ''ta'') JUndefined (Some [''x'']) JUndefined w0
       = Some (Inl TypeError, w0)
   \<and> scrollQuery_call 100 ex_ready ex_client (Some ''A'') (Some ''ta'') JUndefined (Some [''x'']) JUndefined w0
       = GivesPromise (Some (Inl (CodedError 400 (''Invalid fields: '' @ [CHR 0x22] @ ''x'' @ [CHR 0x22])), w0))
   \<and> scrollQuery_call 100 ex_ready ex_client (Some ''A'') (Some ''ta'') JUndefined (Some [''x'']) JUndefined w0
       \<noteq> Throws (CodedError 400 (''Invalid fields: '' @ [CHR 0x22] @ ''x'' @ [CHR 0x22]))"
  by (simp add: scrollQuery_call_def scrollQuery_def scrollQuery_checks_def getESFields_def
        getESFieldTypeMappingByIndex_def ex_partial_def ex_ready_def falsy_def Object_keys_def
        difference_def invalid_fields_message_def initialize_def initialize_begin_def
        initialize_resume_def getESFieldsTypes_def fieldTypes_of_def ex_client_def ex_es_def Let_def)

lemma promise_all_Inr: "promise_all ps = Inr xs \<Longrightarrow> ps = map Inr xs"
  by (induction ps arbitrary: xs rule: promise_all.induct) (auto split: sum.splits)

lemma install_foldl:
  "fieldTypes s = Some acc \<Longrightarrow>
   install (map (\<lambda>cfg. (cfg_index cfg, g cfg)) cfgs) s =
     Inr (s\<lparr>fieldTypes := Some (foldl (\<lambda>a cfg. AList.update (cfg_index cfg) (g cfg) a) acc cfgs)\<rparr>)"
  by (induction cfgs arbitrary: s acc) simp_all

lemma sends_foldl:
  "foldl (\<lambda>w' cfg. send (g cfg) w') w cfgs = sends (map g cfgs) w"
  by (induction cfgs arbitrary: w) (simp_all add: sends_def send_def)

lemma initialize_begin_eq:
  "initialize_begin s w =
     (s\<lparr>fieldTypes := Some []\<rparr>, sends (map (\<lambda>cfg. GetMapping (cfg_index cfg) (cfg_type cfg)) (indices s)) w)"
  by (simp add: initialize_begin_def sends_foldl)

lemma settled_zip:
  assumes "promise_all (map (\<lambda>cfg. fst (getESFieldsTypes c (cfg_index cfg) (cfg_type cfg))) cfgs) = Inr fts"
  shows "zip (map cfg_index cfgs) fts = map (\<lambda>cfg. (cfg_index cfg, settled_value c cfg)) cfgs"
proof -
  from promise_all_Inr [OF assms]
  have m: "map (\<lambda>cfg. fst (getESFieldsTypes c (cfg_index cfg) (cfg_type cfg))) cfgs = map Inr fts" .
  then have len: "length fts = length cfgs"
    by (metis length_map)
  have "\<forall>i < length cfgs. settled_value c (cfgs ! i) = fts ! i"
  proof (intro allI impI)
    fix i assume i: "i < length cfgs"
    from m have "map (\<lambda>cfg. fst (getESFieldsTypes c (cfg_index cfg) (cfg_type cfg))) cfgs ! i = map Inr fts ! i"
      by simp
    with i len show "settled_value c (cfgs ! i) = fts ! i"
      by (simp add: settled_value_def)
  qed
  with len show ?thesis
    by (intro nth_equalityI) simp_all
qed

lemma initialize_Inr:
  assumes "fst (initialize c s w) = Inr cache"
  shows "cache = Some (built_cache c s) \<and> fieldTypes (fst (snd (initialize c s w))) = cache"
proof -
  let ?ps = "map (\<lambda>cfg. fst (getESFieldsTypes c (cfg_index cfg) (cfg_type cfg))) (indices s)"
  show ?thesis
  proof (cases "promise_all ?ps")
    case (Inl e)
    with assms show ?thesis
      by (simp add: initialize_def initialize_begin_eq initialize_resume_def Let_def comp_def)
  next
    case (Inr fts)
    note z = settled_zip [OF Inr]
    have i: "install (map (\<lambda>cfg. (cfg_index cfg, settled_value c cfg)) (indices s)) (s\<lparr>fieldTypes := Some []\<rparr>)
          = Inr (s\<lparr>fieldTypes := Some (built_cache c s)\<rparr>)"
      using install_foldl [of "s\<lparr>fieldTypes := Some []\<rparr>" "[]" "settled_value c" "indices s"]
      by (simp add: built_cache_def)
    from assms show ?thesis
      by (simp add: initialize_def initialize_begin_eq initialize_resume_def Let_def comp_def Inr z i)
  qed
qed

lemma initialize_Inl:
  assumes "fst (initialize c s w) = Inl e"
  shows "fieldTypes (fst (snd (initialize c s w))) = Some []"
proof -
  let ?ps = "map (\<lambda>cfg. fst (getESFieldsTypes c (cfg_index cfg) (cfg_type cfg))) (indices s)"
  show ?thesis
  proof (cases "promise_all ?ps")
    case (Inl e)
    then show ?thesis
      by (simp add: initialize_def initialize_begin_eq initialize_resume_def Let_def comp_def)
  next
    case (Inr fts)
    note z = settled_zip [OF Inr]
    have i: "install (map (\<lambda>cfg. (cfg_index cfg, settled_value c cfg)) (indices s)) (s\<lparr>fieldTypes := Some []\<rparr>)
          = Inr (s\<lparr>fieldTypes := Some (built_cache c s)\<rparr>)"
      using install_foldl [of "s\<lparr>fieldTypes := Some []\<rparr>" "[]" "settled_value c" "indices s"]
      by (simp add: built_cache_def)
    from assms show ?thesis
      by (simp add: initialize_def initialize_begin_eq initialize_resume_def Let_def comp_def Inr z i)
  qed
qed

text \<open>
  Claim C4, as amended. \<open>initialize\<close> does not keep the previous map while it runs:
  its first statement replaces the cache by an empty object, and that empty object is
  what a read sees at the one suspension point of \<open>initialize\<close>, while the mapping
  requests are in flight. The results are then written one after the other with no
  suspension point between them, so after a completed run a read sees the map built
  from all settled promises, and after a run that threw it sees the empty object.
\<close>

theorem initialize_observable_cache:
  "fieldTypes (fst (initialize_begin s w)) = Some []
   \<and> (\<forall>cache. fst (initialize c s w) = Inr cache \<longrightarrow>
         cache = Some (built_cache c s) \<and> fieldTypes (fst (snd (initialize c s w))) = cache)
   \<and> (\<forall>e. fst (initialize c s w) = Inl e \<longrightarrow> fieldTypes (fst (snd (initialize c s w))) = Some [])"
  using initialize_Inr [of c s w] initialize_Inl [of c s w]
  by (simp add: initialize_begin_eq initialize_def)

theorem initialize_observable_cache_witness:
  "fieldTypes (fst (initialize_begin ex_old w0)) = Some []
   \<and> fst (initialize ex_client ex_old w0) = Inr (Some [(''A'', Some [(''f'', Some ''text''), (''g'', None)])])
   \<and> built_cache ex_client ex_old = [(''A'', Some [(''f'', Some ''text''), (''g'', None)])]
   \<and> fieldTypes (fst (snd (initialize ex_client ex_old w0))) = Some [(''A'', Some [(''f'', Some ''text''), (''g'', None)])]"
proof -
  have e: "fst (initialize ex_client ex_old w0)
             = Inr (Some [(''A'', Some [(''f'', Some ''text''), (''g'', None)])])"
    by (simp add: initialize_def initialize_begin_def initialize_resume_def getESFieldsTypes_def
          fieldTypes_of_def ex_client_def ex_old_def Object_keys_def Let_def)
  have b: "built_cache ex_client ex_old = [(''A'', Some [(''f'', Some ''text''), (''g'', None)])]"
    by (simp add: built_cache_def settled_value_def getESFieldsTypes_def fieldTypes_of_def
          ex_client_def ex_old_def Object_keys_def)
  from initialize_observable_cache [of ex_old w0 ex_client] e b show ?thesis
    by simp
qed

text \<open>
  The claim as stated fails: on an instance that holds a map for \<open>A\<close>, the cache seen
  while \<open>initialize\<close> awaits is neither the previous map nor the new one, and
  \<open>getESFields\<close> throws on it.
\<close>

theorem initialize_clears_cache_first_counterexample:
  "fieldTypes ex_old = Some [(''A'', Some [(''old'', Some ''keyword'')])]
   \<and> fieldTypes (fst (snd (initialize ex_client ex_old w0))) =
        Some [(''A'', Some [(''f'', Some ''text''), (''g'', None)])]
   \<and> fieldTypes (fst (initialize_begin ex_old w0)) = Some []
   \<and> fieldTypes (fst (initialize_begin ex_old w0)) \<noteq> fieldTypes ex_old
   \<and> fieldTypes (fst (initialize_begin ex_old w0)) \<noteq> fieldTypes (fst (snd (initialize ex_client ex_old w0)))
   \<and> getESFields (fst (initialize_begin ex_old w0)) None = Inl TypeError"
  by (simp add: initialize_def initialize_begin_def initialize_resume_def getESFieldsTypes_def
        fieldTypes_of_def ex_client_def ex_old_def Object_keys_def Let_def getESFields_def
        getESFieldTypeMappingByIndex_def)

text \<open>
  Claim C3, as amended. After \<open>initialize\<close> over two indices \<open>A\<close> and \<open>B\<close> with
  different names, where the fetch for \<open>A\<close> succeeds and the one for \<open>B\<close> is
  rejected, the run completes, the cache holds the field-type map of \<open>A\<close>, and the key
  \<open>B\<close> is in the cache, bound to \<open>undefined\<close>: a read of \<open>B\<close> gives \<open>undefined\<close>,
  no map, empty or partial, is stored for it.
\<close>

theorem initialize_failed_fetch:
  assumes "indices s = [cfgA, cfgB]" and "cfg_index cfgA \<noteq> cfg_index cfgB"
    and "getMapping c (cfg_index cfgA) (cfg_type cfgA) = Resolved bodyA"
    and "fieldTypes_of bodyA (cfg_type cfgA) = Inr ftA"
    and "getMapping c (cfg_index cfgB) (cfg_type cfgB) = Rejected msg"
  shows "fst (initialize c s w) = Inr (Some [(cfg_index cfgA, Some ftA), (cfg_index cfgB, None)])
     \<and> fieldTypes (fst (snd (initialize c s w))) = Some [(cfg_index cfgA, Some ftA), (cfg_index cfgB, None)]
     \<and> getESFieldTypeMappingByIndex (fst (snd (initialize c s w))) (cfg_index cfgA) = Inr (Some ftA)
     \<and> getESFieldTypeMappingByIndex (fst (snd (initialize c s w))) (cfg_index cfgB) = Inr None
     \<and> no_cached_map (fst (snd (initialize c s w))) (cfg_index cfgB)"
  using assms
  by (simp add: initialize_def initialize_begin_def initialize_resume_def getESFieldsTypes_def
        Let_def getESFieldTypeMappingByIndex_def no_cached_map_def)

theorem initialize_failed_fetch_witness:
  "indices ex_es = [\<lparr>cfg_index = ''A'', cfg_type = ''ta''\<rparr>, \<lparr>cfg_index = ''B'', cfg_type = ''tb''\<rparr>]
   \<and> getMapping ex_client ''A'' ''ta'' = Resolved [(''A_1'', [(''ta'', [(''f'', Some ''text''), (''g'', None)])])]
   \<and> fieldTypes_of [(''A_1'', [(''ta'', [(''f'', Some ''text''), (''g'', None)])])] ''ta'' = Inr [(''f'', Some ''text''), (''g'', None)]
   \<and> getMapping ex_client ''B'' ''tb'' = Rejected ''down''
   \<and> fieldTypes (fst (snd (initialize ex_client ex_es w0))) = Some [(''A'', Some [(''f'', Some ''text''), (''g'', None)]), (''B'', None)]"
  using initialize_failed_fetch [where s = ex_es and c = ex_client and w = w0
      and cfgA = "\<lparr>cfg_index = ''A'', cfg_type = ''ta''\<rparr>" and cfgB = "\<lparr>cfg_index = ''B'', cfg_type = ''tb''\<rparr>"
      and bodyA = "[(''A_1'', [(''ta'', [(''f'', Some ''text''), (''g'', None)])])]"
      and ftA = "[(''f'', Some ''text''), (''g'', None)]" and msg = "''down''"]
  by (simp add: ex_es_def ex_client_def fieldTypes_of_def Object_keys_def)

text \<open>
  The claim as stated fails: the cache has an entry for \<open>B\<close>. Its own keys are
  \<open>A\<close> and \<open>B\<close>, and the value under \<open>B\<close> is \<open>undefined\<close>.
\<close>

theorem initialize_failed_fetch_keeps_key_counterexample:
  "getMapping ex_client ''A'' ''ta'' = Resolved [(''A_1'', [(''ta'', [(''f'', Some ''text''), (''g'', None)])])]
   \<and> getMapping ex_client ''B'' ''tb'' = Rejected ''down''
   \<and> map_option Object_keys (fieldTypes (fst (snd (initialize ex_client ex_es w0)))) = Some [''A'', ''B'']
   \<and> map_option (\<lambda>cache. map_of cache ''B'') (fieldTypes (fst (snd (initialize ex_client ex_es w0)))) = Some (Some None)"
  by (simp add: initialize_def initialize_begin_def initialize_resume_def getESFieldsTypes_def
        fieldTypes_of_def ex_client_def ex_es_def Object_keys_def Let_def)

section \<open>Properties of \<open>scrollQuery\<close>\<close>

lemma fetches_send: "fetches (send x w) = (if is_fetch x then Suc (fetches w) else fetches w)"
  by (simp add: fetches_def send_def)

lemma is_fetch_next_request: "is_fetch (next_request req sid)"
  by (simp add: next_request_def split: option.splits)

lemma not_release_next_request: "\<not> is_release (next_request req sid)"
  by (simp add: next_request_def split: option.splits)

lemma sends_Nil: "sends [] w = w"
  by (simp add: sends_def)

lemma sends_send: "sends cs (send x w) = sends (x # cs) w"
  by (simp add: sends_def send_def)

lemma send_sends: "send x (sends cs w) = sends (cs @ [x]) w"
  by (simp add: sends_def send_def)

lemma loop_page:
  assumes "cb = None \<or> 0 < n" and "pages c (fetches w) = Resolved b"
  shows "scroll_loop c req cb sid td n w =
           scroll_loop c req (Some b) (scroll_id b) (td @ hits b) (length (hits b))
             (send (next_request req sid) w)"
  using assms
  by (subst scroll_loop.simps) (auto simp: next_request_def split: option.splits)

lemma loop_done: "scroll_loop c req (Some b) sid td 0 w = Some (Inr (sid, td), w)"
  by (subst scroll_loop.simps) simp

lemma loop_reject:
  assumes "cb = None \<or> 0 < n" and "pages c (fetches w) = Rejected msg"
  shows "scroll_loop c req cb sid td n w =
           Some (case sid of
                   None \<Rightarrow> (Inl TypeError,
                            logged [LogError ''[ES.query] error when query'', ConsoleTrace msg]
                              (send (Search req) w))
                 | Some i \<Rightarrow> (Inl (ClientError msg), send (Scroll i ''1m'') w))"
  using assms
  by (subst scroll_loop.simps) (auto split: option.splits)

lemma loop_pages:
  assumes "\<forall>i < length bs. pages c (fetches w + i) = Resolved (bs ! i)"
    and "\<forall>b \<in> set (butlast bs). hits b \<noteq> []" and "bs \<noteq> []" and "cb = None \<or> 0 < n"
  shows "scroll_loop c req cb sid td n w =
           scroll_loop c req (Some (last bs)) (scroll_id (last bs)) (td @ concat (map hits bs))
             (length (hits (last bs))) (sends (requests req sid bs) w)"
  using assms
proof (induction bs arbitrary: cb sid td n w)
  case Nil
  then show ?case by simp
next
  case (Cons b bs)
  from Cons.prems(1) have p0: "pages c (fetches w) = Resolved b" by force
  note step = loop_page [OF Cons.prems(4) p0, of req sid td]
  show ?case
  proof (cases "bs = []")
    case True
    then show ?thesis
      by (simp add: step sends_def send_def)
  next
    case False
    let ?w = "send (next_request req sid) w"
    have f: "fetches ?w = Suc (fetches w)"
      by (simp add: fetches_send is_fetch_next_request)
    have a1: "\<forall>i < length bs. pages c (fetches ?w + i) = Resolved (bs ! i)"
    proof (intro allI impI)
      fix i assume "i < length bs"
      then have "pages c (fetches w + Suc i) = Resolved ((b # bs) ! Suc i)"
        using Cons.prems(1) by (metis Suc_less_eq length_Cons)
      then show "pages c (fetches ?w + i) = Resolved (bs ! i)"
        by (simp add: f)
    qed
    have a2: "\<forall>b \<in> set (butlast bs). hits b \<noteq> []"
      using Cons.prems(2) False by simp
    have a4: "Some b = None \<or> 0 < length (hits b)"
      using Cons.prems(2) False by simp
    show ?thesis
      using Cons.IH [OF a1 a2 False a4, of "scroll_id b" "td @ hits b"] False
      by (simp add: step sends_send)
  qed
qed

lemma scrollQuery_unfold:
  assumes "scrollQuery_checks s esIndex esType fields_arg = None"
  shows "scrollQuery P s c esIndex esType filter_arg fields_arg sort_arg w =
     (case scroll_loop c (first_request P esIndex esType filter_arg fields_arg sort_arg) None None [] 0 w of
                None \<Rightarrow> None
              | Some (Inl e, w') \<Rightarrow> Some (Inl e, w')
              | Some (Inr (scrollID, totalData), w') \<Rightarrow>
                  (case release c scrollID of
                     Rejected msg \<Rightarrow> Some (Inl (ClientError msg), send (ClearScroll scrollID) w')
                   | Resolved _ \<Rightarrow> Some (Inr totalData, send (ClearScroll scrollID) w')))"
  using assms by (simp add: scrollQuery_def first_request_def Let_def)

text \<open>A run of pages that ends with an empty one.\<close>

lemma scroll_run_pages:
  assumes "scrollQuery_checks s esIndex esType fields_arg = None"
    and "\<forall>i < length bs. pages c (fetches w + i) = Resolved (bs ! i)"
    and "\<forall>b \<in> set (butlast bs). hits b \<noteq> []" and "bs \<noteq> []" and "hits (last bs) = []"
  shows "scrollQuery P s c esIndex esType filter_arg fields_arg sort_arg w =
     (let req = first_request P esIndex esType filter_arg fields_arg sort_arg;
          w' = sends (requests req None bs @ [ClearScroll (scroll_id (last bs))]) w
      in case release c (scroll_id (last bs)) of
           Rejected msg \<Rightarrow> Some (Inl (ClientError msg), w')
         | Resolved _ \<Rightarrow> Some (Inr (concat (map hits (butlast bs))), w'))"
proof -
  have c: "concat (map hits bs) = concat (map hits (butlast bs))"
    using assms(4,5) by (induction bs) auto
  have "None = None \<or> 0 < (0::nat)" by simp
  from loop_pages [OF assms(2,3,4) this]
  show ?thesis
    by (simp add: scrollQuery_unfold [OF assms(1)] assms(5) loop_done Let_def send_sends c
          split: promise.splits)
qed

text \<open>A run of non-empty pages followed by a rejected request.\<close>

lemma scroll_run_fails:
  assumes "scrollQuery_checks s esIndex esType fields_arg = None"
    and "\<forall>i < length bs. pages c (fetches w + i) = Resolved (bs ! i)"
    and "\<forall>b \<in> set bs. hits b \<noteq> []"
    and "pages c (fetches w + length bs) = Rejected msg"
  shows "scrollQuery P s c esIndex esType filter_arg fields_arg sort_arg w =
     (let req = first_request P esIndex esType filter_arg fields_arg sort_arg in
      if bs = [] then
        Some (Inl TypeError, logged [LogError ''[ES.query] error when query'', ConsoleTrace msg]
                               (send (Search req) w))
      else case scroll_id (last bs) of
             None \<Rightarrow> Some (Inl TypeError,
                           logged [LogError ''[ES.query] error when query'', ConsoleTrace msg]
                             (sends (requests req None bs @ [Search req]) w))
           | Some sid \<Rightarrow> Some (Inl (ClientError msg),
                               sends (requests req None bs @ [Scroll sid ''1m'']) w))"
proof (cases "bs = []")
  case True
  with assms(4) have "pages c (fetches w) = Rejected msg" by simp
  from loop_reject [OF _ this, of None 0]
  show ?thesis
    by (simp add: scrollQuery_unfold [OF assms(1)] True Let_def)
next
  case False
  let ?req = "first_request P esIndex esType filter_arg fields_arg sort_arg"
  let ?w = "sends (requests ?req None bs) w"
  have b: "\<forall>b \<in> set (butlast bs). hits b \<noteq> []"
    using assms(3) by (meson in_set_butlastD)
  have "None = None \<or> 0 < (0::nat)" by simp
  note run = loop_pages [OF assms(2) b False this, of ?req None "[]"]
  have r: "\<And>sid. filter is_fetch (requests ?req sid bs) = requests ?req sid bs"
    by (induction bs) (simp_all add: is_fetch_next_request)
  have l: "\<And>sid. length (requests ?req sid bs) = length bs"
    by (induction bs) simp_all
  have f: "fetches ?w = fetches w + length bs"
    by (simp add: fetches_def sends_def r l)
  have p: "pages c (fetches ?w) = Rejected msg"
    using assms(4) by (simp add: f)
  have n: "Some (last bs) = None \<or> 0 < length (hits (last bs))"
    using assms(3) False by simp
  have loop: "scroll_loop c ?req None None [] 0 w =
      Some (case scroll_id (last bs) of
              None \<Rightarrow> (Inl TypeError,
                        logged [LogError ''[ES.query] error when query'', ConsoleTrace msg]
                          (send (Search ?req) ?w))
            | Some i \<Rightarrow> (Inl (ClientError msg), send (Scroll i ''1m'') ?w))"
    using run loop_reject [OF n p] by simp
  show ?thesis
    using False
    by (simp add: scrollQuery_unfold [OF assms(1)] loop Let_def send_sends split: option.splits)
qed

lemma ex_ready_checks:
  "scrollQuery_checks ex_ready (Some ''A'') (Some ''ta'') (Some [''f'']) = None"
  by (simp add: scrollQuery_checks_def falsy_def ex_ready_def getESFields_def
        getESFieldTypeMappingByIndex_def Object_keys_def difference_def)

lemma next_request_None: "next_request req None = Search req"
  by (simp add: next_request_def)

text \<open>
  Claim C1, as amended. Take a \<open>scrollQuery\<close> call that passes its checks, against an
  engine that answers its page requests with pages of sizes 2, 2 and 0. The call sends
  three page requests and no more: the search, and one continuation for each of the two
  pages that were not empty. After the empty page it sends one release, of the cursor of
  that page, and this is the only release. When the release resolves, the call returns
  exactly the four documents, those of the first page and then those of the second, each
  page in the engine's order. When the release is rejected, the call fails with that
  rejection and returns no documents: the release is awaited with no handler.
\<close>

theorem scrollQuery_pages_2_2_0:
  assumes "scrollQuery_checks s esIndex esType fields_arg = None"
    and "req = first_request P esIndex esType filter_arg fields_arg sort_arg"
    and "pages c (fetches w) = Resolved p1"
    and "pages c (fetches w + 1) = Resolved p2"
    and "pages c (fetches w + 2) = Resolved p3"
    and "length (hits p1) = 2" and "length (hits p2) = 2" and "length (hits p3) = 0"
  shows "\<exists>w'. scrollQuery P s c esIndex esType filter_arg fields_arg sort_arg w
                = Some (case release c (scroll_id p3) of
                          Resolved u \<Rightarrow> Inr (hits p1 @ hits p2)
                        | Rejected msg \<Rightarrow> Inl (ClientError msg), w')
           \<and> length (hits p1 @ hits p2) = 4
           \<and> calls w' = calls w @ [Search req, next_request req (scroll_id p1),
                                    next_request req (scroll_id p2), ClearScroll (scroll_id p3)]
           \<and> filter is_release (calls w') = filter is_release (calls w) @ [ClearScroll (scroll_id p3)]
           \<and> fetches w' = fetches w + 3
           \<and> console w' = console w"
proof -
  let ?bs = "[p1, p2, p3]"
  have a: "\<forall>i < length ?bs. pages c (fetches w + i) = Resolved (?bs ! i)"
    using assms(3,4,5) by (auto simp: less_Suc_eq numeral_3_eq_3)
  have b: "\<forall>b \<in> set (butlast ?bs). hits b \<noteq> []"
    using assms(6,7) by auto
  have e: "hits (last ?bs) = []"
    using assms(8) by simp
  have n: "?bs \<noteq> []" by simp
  from scroll_run_pages [OF assms(1) a b n e, of P filter_arg sort_arg]
  show ?thesis
    using assms(2,6,7)
    by (cases "release c (scroll_id p3)")
       (simp_all add: Let_def sends_def fetches_def is_fetch_next_request not_release_next_request
          next_request_None)
qed

theorem scrollQuery_pages_2_2_0_witness:
  "scrollQuery_checks ex_ready (Some ''A'') (Some ''ta'') (Some [''f'']) = None
   \<and> pages ex_client 0 = Resolved \<lparr>scroll_id = Some ''c1'', hits = [1, 2]\<rparr>
   \<and> pages ex_client 1 = Resolved \<lparr>scroll_id = Some ''c2'', hits = [3, 4]\<rparr>
   \<and> pages ex_client 2 = Resolved \<lparr>scroll_id = Some ''c3'', hits = []\<rparr>
   \<and> release ex_client (Some ''c3'') = Resolved ()
   \<and> scrollQuery 100 ex_ready ex_client (Some ''A'') (Some ''ta'') JUndefined (Some [''f'']) JUndefined w0
       = Some (Inr [1, 2, 3, 4],
               \<lparr>calls = [Search \<lparr>sp_index = Some ''A'', sp_type = Some ''ta'', sp_body = [],
                                  sp_scroll = Some ''1m'', sp_size = Some 100,
                                  sp_source = Some [''f''], sp_sort = JUndefined\<rparr>,
                         Scroll ''c1'' ''1m'', Scroll ''c2'' ''1m'', ClearScroll (Some ''c3'')],
                console = []\<rparr>)"
proof -
  have p: "pages ex_client (fetches w0) = Resolved \<lparr>scroll_id = Some ''c1'', hits = [1, 2]\<rparr>"
     "pages ex_client (fetches w0 + 1) = Resolved \<lparr>scroll_id = Some ''c2'', hits = [3, 4]\<rparr>"
     "pages ex_client (fetches w0 + 2) = Resolved \<lparr>scroll_id = Some ''c3'', hits = []\<rparr>"
    by (simp_all add: ex_client_def fetches_def w0_def)
  have r: "release ex_client (scroll_id \<lparr>scroll_id = Some ''c3'', hits = ([]::nat list)\<rparr>) = Resolved ()"
    by (simp add: ex_client_def)
  from scrollQuery_pages_2_2_0 [OF ex_ready_checks refl p, of 100 JUndefined JUndefined]
  obtain w' where w': "scrollQuery 100 ex_ready ex_client (Some ''A'') (Some ''ta'') JUndefined (Some [''f'']) JUndefined w0
       = Some (Inr [1, 2, 3, 4], w')"
     "calls w' = [Search \<lparr>sp_index = Some ''A'', sp_type = Some ''ta'', sp_body = [],
                                  sp_scroll = Some ''1m'', sp_size = Some 100,
                                  sp_source = Some [''f''], sp_sort = JUndefined\<rparr>,
                         Scroll ''c1'' ''1m'', Scroll ''c2'' ''1m'', ClearScroll (Some ''c3'')]"
     "console w' = []"
    by (auto simp: first_request_def next_request_def w0_def ex_client_def)
  then have "w' = \<lparr>calls = [Search \<lparr>sp_index = Some ''A'', sp_type = Some ''ta'', sp_body = [],
                                  sp_scroll = Some ''1m'', sp_size = Some 100,
                                  sp_source = Some [''f''], sp_sort = JUndefined\<rparr>,
                         Scroll ''c1'' ''1m'', Scroll ''c2'' ''1m'', ClearScroll (Some ''c3'')],
                console = []\<rparr>"
    by (cases w') simp
  with w'(1) show ?thesis
    using p r ex_ready_checks by (simp add: ex_client_def)
qed

text \<open>
  The claim as stated fails: with pages of sizes 2, 2 and 0 and a release that is
  rejected, the call sends the same four requests and ends with the rejection, not
  with the four documents.
\<close>

theorem scrollQuery_rejected_release_counterexample:
  "scrollQuery_checks ex_ready (Some ''A'') (Some ''ta'') (Some [''f'']) = None
   \<and> pages stuck_client 0 = Resolved \<lparr>scroll_id = Some ''c1'', hits = [1, 2]\<rparr>
   \<and> pages stuck_client 1 = Resolved \<lparr>scroll_id = Some ''c2'', hits = [3, 4]\<rparr>
   \<and> pages stuck_client 2 = Resolved \<lparr>scroll_id = Some ''c3'', hits = []\<rparr>
   \<and> release stuck_client (Some ''c3'') = Rejected ''gone''
   \<and> scrollQuery 100 ex_ready stuck_client (Some ''A'') (Some ''ta'') JUndefined (Some [''f'']) JUndefined w0
       = Some (Inl (ClientError ''gone''),
               \<lparr>calls = [Search \<lparr>sp_index = Some ''A'', sp_type = Some ''ta'', sp_body = [],
                                  sp_scroll = Some ''1m'', sp_size = Some 100,
                                  sp_source = Some [''f''], sp_sort = JUndefined\<rparr>,
                         Scroll ''c1'' ''1m'', Scroll ''c2'' ''1m'', ClearScroll (Some ''c3'')],
                console = []\<rparr>)"
proof -
  have f: "fetches w0 = 0" by (simp add: fetches_def w0_def)
  let ?bs = "[\<lparr>scroll_id = Some ''c1'', hits = [1, 2::nat]\<rparr>,
              \<lparr>scroll_id = Some ''c2'', hits = [3, 4]\<rparr>,
              \<lparr>scroll_id = Some ''c3'', hits = []\<rparr>]"
  have a: "\<forall>i < length ?bs. pages stuck_client (fetches w0 + i) = Resolved (?bs ! i)"
    by (auto simp: stuck_client_def f less_Suc_eq numeral_3_eq_3)
  have b: "\<forall>b \<in> set (butlast ?bs). hits b \<noteq> []" by simp
  have n: "?bs \<noteq> []" by simp
  have e: "hits (last ?bs) = []" by simp
  from scroll_run_pages [OF ex_ready_checks a b n e, of 100 JUndefined JUndefined]
  have "scrollQuery 100 ex_ready stuck_client (Some ''A'') (Some ''ta'') JUndefined (Some [''f'']) JUndefined w0
       = Some (Inl (ClientError ''gone''),
               \<lparr>calls = [Search \<lparr>sp_index = Some ''A'', sp_type = Some ''ta'', sp_body = [],
                                  sp_scroll = Some ''1m'', sp_size = Some 100,
                                  sp_source = Some [''f''], sp_sort = JUndefined\<rparr>,
                         Scroll ''c1'' ''1m'', Scroll ''c2'' ''1m'', ClearScroll (Some ''c3'')],
                console = []\<rparr>)"
    by (simp add: Let_def sends_def first_request_def next_request_def w0_def stuck_client_def)
  then show ?thesis
    using ex_ready_checks by (simp add: stuck_client_def)
qed

text \<open>
  Claim C2, as amended. When the first page request of a \<open>scrollQuery\<close> call
  fails, the failure is logged, the call fails with a \<open>TypeError\<close>, and no release
  is attempted: the search is the only request sent. When a continuation request fails,
  after any number of pages that were not empty, the rejection leaves the call at once
  and no release is sent either: the requests sent are the page requests alone.
\<close>

theorem scrollQuery_failed_fetch_no_release:
  assumes "scrollQuery_checks s esIndex esType fields_arg = None"
    and "req = first_request P esIndex esType filter_arg fields_arg sort_arg"
  shows "(pages c (fetches w) = Rejected msg \<longrightarrow>
            (\<exists>w'. scrollQuery P s c esIndex esType filter_arg fields_arg sort_arg w
                      = Some (Inl TypeError, w')
                \<and> calls w' = calls w @ [Search req]
                \<and> console w' = console w @ [LogError ''[ES.query] error when query'', ConsoleTrace msg]))
       \<and> (bs \<noteq> [] \<and> (\<forall>i < length bs. pages c (fetches w + i) = Resolved (bs ! i))
            \<and> (\<forall>b \<in> set bs. hits b \<noteq> []) \<and> scroll_id (last bs) = Some sid
            \<and> pages c (fetches w + length bs) = Rejected msg \<longrightarrow>
            (\<exists>w'. scrollQuery P s c esIndex esType filter_arg fields_arg sort_arg w
                      = Some (Inl (ClientError msg), w')
                \<and> calls w' = calls w @ requests req None bs @ [Scroll sid ''1m'']
                \<and> filter is_release (calls w') = filter is_release (calls w)))"
proof (intro conjI impI)
  assume r: "pages c (fetches w) = Rejected msg"
  have "\<forall>i < length ([]::'a body list). pages c (fetches w + i) = Resolved ([] ! i)" by simp
  moreover have "\<forall>b \<in> set ([]::'a body list). hits b \<noteq> []" by simp
  moreover have "pages c (fetches w + length ([]::'a body list)) = Rejected msg" using r by simp
  ultimately have "scrollQuery P s c esIndex esType filter_arg fields_arg sort_arg w =
      Some (Inl TypeError, logged [LogError ''[ES.query] error when query'', ConsoleTrace msg]
                               (send (Search req) w))"
    using scroll_run_fails [OF assms(1), of "[]" c w msg P filter_arg sort_arg]
    by (simp add: assms(2) Let_def)
  then show "\<exists>w'. scrollQuery P s c esIndex esType filter_arg fields_arg sort_arg w
                      = Some (Inl TypeError, w')
                \<and> calls w' = calls w @ [Search req]
                \<and> console w' = console w @ [LogError ''[ES.query] error when query'', ConsoleTrace msg]"
    by (simp add: logged_def send_def)
next
  assume a: "bs \<noteq> [] \<and> (\<forall>i < length bs. pages c (fetches w + i) = Resolved (bs ! i))
            \<and> (\<forall>b \<in> set bs. hits b \<noteq> []) \<and> scroll_id (last bs) = Some sid
            \<and> pages c (fetches w + length bs) = Rejected msg"
  have nr: "\<And>i. filter is_release (requests req i bs) = []"
    by (induction bs) (simp_all add: not_release_next_request)
  from a have "scrollQuery P s c esIndex esType filter_arg fields_arg sort_arg w =
      Some (Inl (ClientError msg), sends (requests req None bs @ [Scroll sid ''1m'']) w)"
    using scroll_run_fails [OF assms(1), of bs c w msg P filter_arg sort_arg]
    by (simp add: assms(2) Let_def)
  then show "\<exists>w'. scrollQuery P s c esIndex esType filter_arg fields_arg sort_arg w
                      = Some (Inl (ClientError msg), w')
                \<and> calls w' = calls w @ requests req None bs @ [Scroll sid ''1m'']
                \<and> filter is_release (calls w') = filter is_release (calls w)"
    by (simp add: sends_def nr)
qed

theorem scrollQuery_failed_fetch_no_release_witness:
  "scrollQuery_checks ex_ready (Some ''A'') (Some ''ta'') (Some [''f'']) = None
   \<and> pages down_client (fetches w0) = Rejected ''down''
   \<and> (\<exists>w'. scrollQuery 100 ex_ready down_client (Some ''A'') (Some ''ta'') JUndefined (Some [''f'']) JUndefined w0
                = Some (Inl TypeError, w')
          \<and> console w' = [LogError ''[ES.query] error when query'', ConsoleTrace ''down''])
   \<and> pages flaky_client (fetches w0) = Resolved \<lparr>scroll_id = Some ''c1'', hits = [1, 2]\<rparr>
   \<and> pages flaky_client (fetches w0 + 1) = Rejected ''boom''
   \<and> (\<exists>w'. scrollQuery 100 ex_ready flaky_client (Some ''A'') (Some ''ta'') JUndefined (Some [''f'']) JUndefined w0
                = Some (Inl (ClientError ''boom''), w')
          \<and> filter is_release (calls w') = [])"
proof -
  have f: "fetches w0 = 0" by (simp add: fetches_def w0_def)
  have d: "pages down_client (fetches w0) = Rejected ''down''"
    by (simp add: down_client_def)
  have p: "pages flaky_client (fetches w0) = Resolved \<lparr>scroll_id = Some ''c1'', hits = [1, 2]\<rparr>"
    "pages flaky_client (fetches w0 + 1) = Rejected ''boom''"
    by (simp_all add: flaky_client_def f)
  note t1 = scrollQuery_failed_fetch_no_release [OF ex_ready_checks refl,
      where c = down_client and w = w0 and msg = "''down''" and P = 100
        and filter_arg = JUndefined and sort_arg = JUndefined, THEN conjunct1, rule_format, OF d]
  have h: "[\<lparr>scroll_id = Some ''c1'', hits = [1, 2::nat]\<rparr>] \<noteq> []
      \<and> (\<forall>i < length [\<lparr>scroll_id = Some ''c1'', hits = [1, 2::nat]\<rparr>].
            pages flaky_client (fetches w0 + i) = Resolved ([\<lparr>scroll_id = Some ''c1'', hits = [1, 2]\<rparr>] ! i))
      \<and> (\<forall>b \<in> set [\<lparr>scroll_id = Some ''c1'', hits = [1, 2::nat]\<rparr>]. hits b \<noteq> [])
      \<and> scroll_id (last [\<lparr>scroll_id = Some ''c1'', hits = [1, 2::nat]\<rparr>]) = Some ''c1''
      \<and> pages flaky_client (fetches w0 + length [\<lparr>scroll_id = Some ''c1'', hits = [1, 2::nat]\<rparr>]) = Rejected ''boom''"
    using p by simp
  note t2 = scrollQuery_failed_fetch_no_release [OF ex_ready_checks refl,
      where c = flaky_client and w = w0 and msg = "''boom''" and P = 100
        and filter_arg = JUndefined and sort_arg = JUndefined, THEN conjunct2, rule_format, OF h]
  from t1 t2 show ?thesis
    using ex_ready_checks d p by (auto simp: w0_def)
qed

text \<open>
  The claim as stated fails in its second half: with a first page of two documents and
  a second page request that is rejected, the call ends with that rejection and the
  requests sent are the search and the scroll, with no release among them.
\<close>

theorem scrollQuery_continuation_failure_counterexample:
  "pages flaky_client 0 = Resolved \<lparr>scroll_id = Some ''c1'', hits = [1, 2]\<rparr>
   \<and> pages flaky_client 1 = Rejected ''boom''
   \<and> scrollQuery 100 ex_ready flaky_client (Some ''A'') (Some ''ta'') JUndefined (Some [''f'']) JUndefined w0
       = Some (Inl (ClientError ''boom''),
               \<lparr>calls = [Search \<lparr>sp_index = Some ''A'', sp_type = Some ''ta'', sp_body = [],
                                  sp_scroll = Some ''1m'', sp_size = Some 100,
                                  sp_source = Some [''f''], sp_sort = JUndefined\<rparr>,
                         Scroll ''c1'' ''1m''],
                console = []\<rparr>)
   \<and> filter is_release
        [Search \<lparr>sp_index = Some ''A'', sp_type = Some ''ta'', sp_body = [],
                  sp_scroll = Some ''1m'', sp_size = Some 100,
                  sp_source = Some [''f''], sp_sort = JUndefined\<rparr>,
         Scroll ''c1'' ''1m''] = []"
proof -
  have f: "fetches w0 = 0" by (simp add: fetches_def w0_def)
  let ?bs = "[\<lparr>scroll_id = Some ''c1'', hits = [1, 2::nat]\<rparr>]"
  have a: "\<forall>i < length ?bs. pages flaky_client (fetches w0 + i) = Resolved (?bs ! i)"
    by (simp add: flaky_client_def f)
  have b: "\<forall>b \<in> set ?bs. hits b \<noteq> []" by simp
  have r: "pages flaky_client (fetches w0 + length ?bs) = Rejected ''boom''"
    by (simp add: flaky_client_def f)
  from scroll_run_fails [OF ex_ready_checks a b r, of 100 JUndefined JUndefined]
  show ?thesis
    by (simp add: Let_def sends_def first_request_def next_request_def w0_def flaky_client_def)
qed

end
